theory Spec2Isabelle
  imports Complex_Main
begin

section \<open>The weather-driven simulation of the dashboard page\<close>

text \<open>
  The source is \<^verbatim>\<open>src/main.py\<close>. Two pieces of it compute something from the
  selected weather condition: the helper \<^verbatim>\<open>get_weather_impact\<close> (lines 63-70) and the
  list \<^verbatim>\<open>energy\<close> that \<^verbatim>\<open>show_dashboard\<close> builds from \<^verbatim>\<open>hours\<close> (lines 103-107).
  Everything else on the page is widget layout.
\<close>

subsection \<open>Data\<close>

text \<open>
  The weather condition is the Python string that the select box hands over
  (\<^verbatim>\<open>"Sunny"\<close>, \<^verbatim>\<open>"Cloudy"\<close>, \<^verbatim>\<open>"Storm"\<close>); the helper itself accepts any string.
  Its result is the triple \<^verbatim>\<open>batt_level, solar_input, mode\<close>: an integer and two
  strings.
\<close>

type_synonym metrics = "int \<times> string \<times> string"

text \<open>
  The specification names one error. The source has no \<^verbatim>\<open>raise\<close> statement, so no
  branch of the model below produces it; the result type carries it so that
  "raises" and "returns" are distinct values.
\<close>

datatype error = InvalidConditionError

subsection \<open>\<^verbatim>\<open>get_weather_impact\<close>\<close>

text \<open>
  \<^verbatim>\<open>
  def get_weather_impact(weather):
      if weather == "Sunny":
          return 94, "200Wh/day", "Normal"
      elif weather == "Cloudy":
          return 65, "140Wh/day", "Conservation Mode"
      else: # Storm
          return 28, "10Wh/day", "Deep Sleep"
  \<close>
\<close>

definition get_weather_impact :: "string \<Rightarrow> error + metrics" where
  "get_weather_impact weather =
     (if weather = ''Sunny'' then Inr (94, ''200Wh/day'', ''Normal'')
      else if weather = ''Cloudy'' then Inr (65, ''140Wh/day'', ''Conservation Mode'')
      else Inr (28, ''10Wh/day'', ''Deep Sleep''))"

subsection \<open>The energy series of \<^verbatim>\<open>show_dashboard\<close>\<close>

text \<open>
  \<^verbatim>\<open>
  hours = list(range(24))
  if weather_state == "Sunny":
      energy = [50 + (x * 2) if x < 12 else 74 - (x * 0.5) for x in hours]
  else:
      energy = [60 - (x * 1.5) for x in hours]
  \<close>
  The samples are numbers of the form \<open>k / 2\<close> with \<open>\<bar>k\<bar> \<le> 144\<close>; the products
  \<^verbatim>\<open>x * 0.5\<close>, \<^verbatim>\<open>x * 1.5\<close> and the differences are of that form too, so the binary
  floating-point operations of Python round nothing here and the samples are modelled
  by their exact values in \<^typ>\<open>real\<close>. Python compares the integer samples of the
  first half of the sunny day with the same \<^verbatim>\<open>==\<close> as the others.
\<close>

definition hours :: "int list" where
  "hours = [0..23]"

definition energy :: "string \<Rightarrow> real list" where
  "energy weather_state =
     (if weather_state = ''Sunny''
      then map (\<lambda>x. if x < 12 then 50 + (real_of_int x * 2) else 74 - (real_of_int x * 0.5)) hours
      else map (\<lambda>x. 60 - (real_of_int x * 1.5)) hours)"

section \<open>Helper facts\<close>

lemma length_hours: "length hours = 24"
  by (simp add: hours_def)

lemma nth_hours: "h < 24 \<Longrightarrow> hours ! h = int h"
  by (simp add: hours_def)

lemma energy_Sunny_nth:
  "h < 24 \<Longrightarrow> energy ''Sunny'' ! h = (if h < 12 then 50 + real h * 2 else 74 - real h * 0.5)"
  by (simp add: energy_def length_hours nth_hours)

lemma energy_other_nth:
  "w \<noteq> ''Sunny'' \<Longrightarrow> h < 24 \<Longrightarrow> energy w ! h = 60 - real h * 1.5"
  by (simp add: energy_def length_hours nth_hours)

lemma set_hours: "set hours = {0..23}"
  by (simp add: hours_def)

text \<open>
  Every sample is half of an integer of small magnitude, which is why the binary
  floating-point arithmetic of the source is exact on this series.
\<close>

lemma energy_half_integral:
  assumes "v \<in> set (energy w)"
  shows "\<exists>k::int. v = real_of_int k / 2 \<and> \<bar>k\<bar> \<le> 144"
proof (cases "w = ''Sunny''")
  case True
  with assms
  have "v \<in> (\<lambda>x. if x < 12 then 50 + (real_of_int x * 2) else 74 - (real_of_int x * 0.5)) ` {0..23}"
    by (simp add: energy_def set_hours)
  then obtain x where x: "x \<in> {0..23}"
    and v: "v = (if x < 12 then 50 + (real_of_int x * 2) else 74 - (real_of_int x * 0.5))"
    by blast
  show ?thesis
  proof (cases "x < 12")
    case True
    with v x have "v = real_of_int (100 + 4 * x) / 2 \<and> \<bar>100 + 4 * x\<bar> \<le> 144" by simp
    then show ?thesis by blast
  next
    case False
    with v x have "v = real_of_int (148 - x) / 2 \<and> \<bar>148 - x\<bar> \<le> 144" by simp
    then show ?thesis by blast
  qed
next
  case False
  with assms have "v \<in> (\<lambda>x. 60 - (real_of_int x * 1.5)) ` {0..23}"
    by (simp add: energy_def set_hours)
  then obtain x where x: "x \<in> {0..23}" and v: "v = 60 - (real_of_int x * 1.5)"
    by blast
  then have "v = real_of_int (120 - 3 * x) / 2 \<and> \<bar>120 - 3 * x\<bar> \<le> 144" by simp
  then show ?thesis by blast
qed

section \<open>The lookup of \<^verbatim>\<open>get_weather_impact\<close>\<close>

text \<open>
  Claim C1, as amended. For each of the three conditions \<^verbatim>\<open>get_weather_impact\<close>
  returns exactly one literal triple: Sunny gives battery level 94, solar input
  \<^verbatim>\<open>"200Wh/day"\<close> and mode \<^verbatim>\<open>"Normal"\<close>; Cloudy gives 65, \<^verbatim>\<open>"140Wh/day"\<close> and
  \<^verbatim>\<open>"Conservation Mode"\<close>; Storm gives 28, \<^verbatim>\<open>"10Wh/day"\<close> and \<^verbatim>\<open>"Deep Sleep"\<close>. The
  mode is a string and its two-word labels are written with a space.
\<close>

theorem get_weather_impact_table:
  "get_weather_impact ''Sunny'' = Inr (94, ''200Wh/day'', ''Normal'') \<and>
   get_weather_impact ''Cloudy'' = Inr (65, ''140Wh/day'', ''Conservation Mode'') \<and>
   get_weather_impact ''Storm'' = Inr (28, ''10Wh/day'', ''Deep Sleep'')"
  by (simp add: get_weather_impact_def)

text \<open>
  Claim C1 as it is written asks for exact equality of the mode label with the table's
  \<open>ConservationMode\<close> and \<open>DeepSleep\<close>. The labels the source returns differ from
  these: at Cloudy the third component is \<^verbatim>\<open>"Conservation Mode"\<close>, at Storm it is
  \<^verbatim>\<open>"Deep Sleep"\<close>.
\<close>

theorem get_weather_impact_mode_label_counterexample:
  "get_weather_impact ''Cloudy'' \<noteq> Inr (65, ''140Wh/day'', ''ConservationMode'') \<and>
   get_weather_impact ''Storm'' \<noteq> Inr (28, ''10Wh/day'', ''DeepSleep'')"
  by (simp add: get_weather_impact_def)

text \<open>
  Claim C2, as amended. For every input outside the set of Sunny, Cloudy and Storm,
  \<^verbatim>\<open>get_weather_impact\<close> returns the Storm triple through its final \<^verbatim>\<open>else\<close>.
\<close>

theorem get_weather_impact_unrecognised:
  "w \<notin> {''Sunny'', ''Cloudy'', ''Storm''} \<Longrightarrow>
   get_weather_impact w = Inr (28, ''10Wh/day'', ''Deep Sleep'')"
  by (simp add: get_weather_impact_def)

theorem get_weather_impact_unrecognised_witness:
  "''Fog'' \<notin> {''Sunny'', ''Cloudy'', ''Storm''} \<and>
   get_weather_impact ''Fog'' = Inr (28, ''10Wh/day'', ''Deep Sleep'')"
  using get_weather_impact_unrecognised [of "''Fog''"] by simp

text \<open>
  Claim C2 as it is written says that such an input raises \<open>InvalidConditionError\<close>.
  The input \<^verbatim>\<open>"Fog"\<close> is outside the set and the call returns a triple.
\<close>

theorem get_weather_impact_raises_counterexample:
  "''Fog'' \<notin> {''Sunny'', ''Cloudy'', ''Storm''} \<and>
   get_weather_impact ''Fog'' \<noteq> Inl InvalidConditionError \<and>
   get_weather_impact ''Fog'' = Inr (28, ''10Wh/day'', ''Deep Sleep'')"
  by (simp add: get_weather_impact_def)

text \<open>
  Claim C8. For each of the three conditions the battery level that
  \<^verbatim>\<open>get_weather_impact\<close> returns is an integer between 0 and 100, both included.
\<close>

theorem get_weather_impact_battery_range:
  "w \<in> {''Sunny'', ''Cloudy'', ''Storm''} \<Longrightarrow>
   \<exists>b s m. get_weather_impact w = Inr (b, s, m) \<and> 0 \<le> b \<and> b \<le> 100"
  by (auto simp add: get_weather_impact_def)

theorem get_weather_impact_battery_range_witness:
  "''Cloudy'' \<in> {''Sunny'', ''Cloudy'', ''Storm''} \<and>
   (\<exists>b s m. get_weather_impact ''Cloudy'' = Inr (b, s, m) \<and> 0 \<le> b \<and> b \<le> 100)"
  using get_weather_impact_battery_range [of "''Cloudy''"] by simp

text \<open>
  Claim C9. \<^verbatim>\<open>get_weather_impact\<close> is total: every input that is neither
  \<^verbatim>\<open>"Sunny"\<close> nor \<^verbatim>\<open>"Cloudy"\<close> gets the Storm triple 28, \<^verbatim>\<open>"10Wh/day"\<close>,
  \<^verbatim>\<open>"Deep Sleep"\<close> from the final \<^verbatim>\<open>else\<close>, every call returns a triple, and no
  call raises an error.
\<close>

theorem get_weather_impact_total:
  "(w \<noteq> ''Sunny'' \<and> w \<noteq> ''Cloudy'' \<longrightarrow>
      get_weather_impact w = Inr (28, ''10Wh/day'', ''Deep Sleep'')) \<and>
   (\<exists>m. get_weather_impact w = Inr m) \<and>
   (\<forall>e. get_weather_impact w \<noteq> Inl e)"
  by (simp add: get_weather_impact_def)

theorem get_weather_impact_total_witness:
  "''Hail'' \<noteq> ''Sunny'' \<and> ''Hail'' \<noteq> ''Cloudy'' \<and>
   get_weather_impact ''Hail'' = Inr (28, ''10Wh/day'', ''Deep Sleep'') \<and>
   get_weather_impact ''Hail'' \<noteq> Inl InvalidConditionError"
  using get_weather_impact_total [of "''Hail''"] by simp

section \<open>The energy series\<close>

text \<open>
  Claim C3. On a sunny day the series is \<open>50 + 2 * h\<close> at every hour \<open>h < 12\<close> and
  \<open>74 - 0.5 * h\<close> at every hour from 12 to 23; the samples at the hours 0, 11, 12 and
  23 are 50, 72, 68 and 62.5.
\<close>

theorem energy_Sunny_formula:
  "(h < 12 \<longrightarrow> energy ''Sunny'' ! h = 50 + 2 * real h) \<and>
   (12 \<le> h \<and> h \<le> 23 \<longrightarrow> energy ''Sunny'' ! h = 74 - 0.5 * real h) \<and>
   energy ''Sunny'' ! 0 = 50 \<and> energy ''Sunny'' ! 11 = 72 \<and>
   energy ''Sunny'' ! 12 = 68 \<and> energy ''Sunny'' ! 23 = 62.5"
  by (simp add: energy_Sunny_nth)

theorem energy_Sunny_formula_witness:
  "(5::nat) < 12 \<and> energy ''Sunny'' ! 5 = 60 \<and>
   (12::nat) \<le> 20 \<and> (20::nat) \<le> 23 \<and> energy ''Sunny'' ! 20 = 64"
  using energy_Sunny_formula [of 5] energy_Sunny_formula [of 20] by simp

text \<open>
  Claim C4. On a cloudy day, and on a stormy day, which takes the same branch, the
  series is \<open>60 - 1.5 * h\<close> at every hour from 0 to 23; the samples at the hours 0 and
  23 are 60 and 25.5.
\<close>

theorem energy_Cloudy_Storm_formula:
  "w \<in> {''Cloudy'', ''Storm''} \<Longrightarrow>
   (h \<le> 23 \<longrightarrow> energy w ! h = 60 - 1.5 * real h) \<and>
   energy w ! 0 = 60 \<and> energy w ! 23 = 25.5"
  by (auto simp add: energy_other_nth)

theorem energy_Cloudy_Storm_formula_witness:
  "''Cloudy'' \<in> {''Cloudy'', ''Storm''} \<and> ''Storm'' \<in> {''Cloudy'', ''Storm''} \<and>
   (7::nat) \<le> 23 \<and> energy ''Cloudy'' ! 7 = 49.5 \<and> energy ''Storm'' ! 7 = 49.5"
  using energy_Cloudy_Storm_formula [of "''Cloudy''" 7]
    energy_Cloudy_Storm_formula [of "''Storm''" 7]
  by simp

text \<open>
  Claim C5. The series of a stormy day is the series of a cloudy day, sample for sample
  over its 24 hours, although \<^verbatim>\<open>get_weather_impact\<close> gives the two conditions
  different metrics.
\<close>

theorem energy_Storm_eq_Cloudy:
  "energy ''Storm'' = energy ''Cloudy'' \<and>
   length (energy ''Storm'') = 24 \<and>
   get_weather_impact ''Storm'' \<noteq> get_weather_impact ''Cloudy''"
  by (simp add: energy_def get_weather_impact_def length_hours)

text \<open>
  Claim C6. For each of the three conditions the series has exactly 24 samples, one for
  each entry of \<^verbatim>\<open>hours\<close>, the hours 0 to 23.
\<close>

theorem energy_length:
  "w \<in> {''Sunny'', ''Cloudy'', ''Storm''} \<Longrightarrow>
   length (energy w) = 24 \<and> length (energy w) = length hours \<and> hours = [0..23]"
  by (auto simp add: energy_def length_hours hours_def)

theorem energy_length_witness:
  "''Sunny'' \<in> {''Sunny'', ''Cloudy'', ''Storm''} \<and> length (energy ''Sunny'') = 24 \<and>
   length (energy ''Cloudy'') = 24 \<and> length (energy ''Storm'') = 24"
  using energy_length [of "''Sunny''"] energy_length [of "''Cloudy''"]
    energy_length [of "''Storm''"]
  by simp

text \<open>
  Claim C10. For each of the three conditions and every hour from 0 to 23 the sample
  lies between 25.5 and 72, hence between 0 and 100, although the source clamps
  nothing.
\<close>

theorem energy_bounds:
  "w \<in> {''Sunny'', ''Cloudy'', ''Storm''} \<Longrightarrow> h < 24 \<Longrightarrow>
   25.5 \<le> energy w ! h \<and> energy w ! h \<le> 72 \<and> 0 \<le> energy w ! h \<and> energy w ! h \<le> 100"
  by (auto simp add: energy_Sunny_nth energy_other_nth)

theorem energy_bounds_witness:
  "''Storm'' \<in> {''Sunny'', ''Cloudy'', ''Storm''} \<and> (23::nat) < 24 \<and>
   25.5 \<le> energy ''Storm'' ! 23 \<and> energy ''Storm'' ! 23 \<le> 72 \<and>
   ''Sunny'' \<in> {''Sunny'', ''Cloudy'', ''Storm''} \<and> (11::nat) < 24 \<and>
   25.5 \<le> energy ''Sunny'' ! 11 \<and> energy ''Sunny'' ! 11 \<le> 72"
  using energy_bounds [of "''Storm''" 23] energy_bounds [of "''Sunny''" 11] by simp

end
